theory Spec2Isabelle
  imports Complex_Main "HOL-Library.Sublist"
begin

section \<open>JavaScript values and exceptions\<close>

text \<open>
  The dashboard (\<^verbatim>\<open>src/App.tsx\<close>) reads its data out of JSON that arrives from a relay.
  TypeScript's annotations are erased at run time, so the payload is modelled as the values
  \<^verbatim>\<open>JSON.parse\<close> can produce, together with \<^verbatim>\<open>undefined\<close> (what reading an absent
  property gives). A finite number is the exact rational value of its double.
\<close>

datatype number = Finite rat | NaN | PosInfinity | NegInfinity

datatype jsval =
    Undefined
  | Null
  | Bool bool
  | Num number
  | Str string
  | Arr "jsval list"
  | Obj "(string \<times> jsval) list"

text \<open>What a \<^verbatim>\<open>try\<close> block can catch in \<^verbatim>\<open>fetchData\<close>.\<close>

datatype js_error =
    NetworkError
  | HttpError int
  | SyntaxError
  | TypeError

text \<open>
  \<^verbatim>\<open>v.key\<close> for a key that no built-in prototype defines (\<^verbatim>\<open>contents\<close>, \<^verbatim>\<open>name\<close>):
  reading a property of \<^verbatim>\<open>null\<close> or \<^verbatim>\<open>undefined\<close> throws a TypeError, an object gives
  its own property or \<^verbatim>\<open>undefined\<close>, every other value gives \<^verbatim>\<open>undefined\<close>.
\<close>

fun getProp :: "jsval \<Rightarrow> string \<Rightarrow> js_error + jsval" where
  "getProp Undefined key = Inl TypeError"
| "getProp Null key = Inl TypeError"
| "getProp (Obj fields) key =
     (case map_of fields key of None \<Rightarrow> Inr Undefined | Some v \<Rightarrow> Inr v)"
| "getProp v key = Inr Undefined"

section \<open>Data model\<close>

text \<open>\<^verbatim>\<open>interface Service\<close>, \<^verbatim>\<open>interface ServiceInfo\<close> and \<^verbatim>\<open>interface WorkshopStatus\<close>.\<close>

record Service =
  name :: string
  online :: bool
  online_24_hours :: number
  online_7_days :: number
  last_success :: string
  last_error :: string
  latency :: number
  failures_24_hours :: number

record ServiceInfo =
  name :: string
  url :: "string option"

record WorkshopStatus =
  online :: bool
  latency :: int

text \<open>A \<^verbatim>\<open>Service\<close> as the object the feed carries for it.\<close>

definition jsService :: "Service \<Rightarrow> jsval" where
  "jsService s = Obj
     [(''name'', Str (Service.name s)),
      (''online'', Bool (Service.online s)),
      (''online_24_hours'', Num (online_24_hours s)),
      (''online_7_days'', Num (online_7_days s)),
      (''last_success'', Str (last_success s)),
      (''last_error'', Str (last_error s)),
      (''latency'', Num (Service.latency s)),
      (''failures_24_hours'', Num (failures_24_hours s))]"

definition targetServices :: "ServiceInfo list" where
  "targetServices =
     [\<lparr>name = ''Main Page'', url = Some ''https://www.bohemia.net''\<rparr>,
      \<lparr>name = ''Arma Reforger Game API'', url = None\<rparr>,
      \<lparr>name = ''Arma Reforger Workshop API'',
       url = Some ''https://reforger.armaplatform.com/workshop''\<rparr>]"

section \<open>Service filter\<close>

text \<open>
  The callback of \<^verbatim>\<open>data.filter\<close>:
  \<^verbatim>\<open>targetServices.map(s => s.name).includes(service.name)\<close>. \<^verbatim>\<open>includes\<close> compares with
  SameValueZero, which on the strings of the name list is equality of strings.
\<close>

definition isTarget :: "ServiceInfo list \<Rightarrow> jsval \<Rightarrow> js_error + bool" where
  "isTarget spec service =
     (case getProp service ''name'' of
        Inl e \<Rightarrow> Inl e
      | Inr n \<Rightarrow> Inr (n \<in> set (map (\<lambda>s. Str (ServiceInfo.name s)) spec)))"

text \<open>
  \<^verbatim>\<open>Array.prototype.filter\<close> with a callback that may throw: the elements are visited in
  order and the first exception leaves the loop.
\<close>

fun filter_elems :: "(jsval \<Rightarrow> js_error + bool) \<Rightarrow> jsval list \<Rightarrow> js_error + jsval list" where
  "filter_elems p [] = Inr []"
| "filter_elems p (x # xs) =
     (case p x of
        Inl e \<Rightarrow> Inl e
      | Inr keep \<Rightarrow>
          (case filter_elems p xs of
             Inl e \<Rightarrow> Inl e
           | Inr ys \<Rightarrow> Inr (if keep then x # ys else ys)))"

text \<open>
  \<^verbatim>\<open>data.filter(...)\<close>: only an array has the method; on \<^verbatim>\<open>null\<close> the property read
  throws, on any other value the call of \<^verbatim>\<open>undefined\<close> throws.
\<close>

definition array_filter :: "(jsval \<Rightarrow> js_error + bool) \<Rightarrow> jsval \<Rightarrow> js_error + jsval list" where
  "array_filter p data = (case data of Arr xs \<Rightarrow> filter_elems p xs | _ \<Rightarrow> Inl TypeError)"

definition filterServices :: "ServiceInfo list \<Rightarrow> jsval \<Rightarrow> js_error + jsval list" where
  "filterServices spec data = array_filter (isTarget spec) data"

section \<open>Refresh state and the primary fetch\<close>

text \<open>
  The five \<^verbatim>\<open>useState\<close> cells of \<^verbatim>\<open>App\<close>. Times are the integer milliseconds of
  \<^verbatim>\<open>Date.getTime\<close>; \<^verbatim>\<open>new Date()\<close> and \<^verbatim>\<open>Date.now()\<close> are clock readings handed to
  the model.
\<close>

record AppState =
  services :: "jsval list"
  loading :: bool
  error :: "string option"
  lastUpdate :: int
  workshopStatus :: WorkshopStatus

definition initialState :: "int \<Rightarrow> AppState" where
  "initialState sessionStart =
     \<lparr>services = [], loading = True, error = None, lastUpdate = sessionStart,
      workshopStatus = \<lparr>online = False, latency = 0\<rparr>\<rparr>"

text \<open>
  What \<^verbatim>\<open>await fetch(...)\<close> resolves to: the HTTP status and what \<^verbatim>\<open>await response.json()\<close>
  gives for the body. \<^verbatim>\<open>response.ok\<close> is the status being in 200..299.
\<close>

record Response =
  status :: int
  json :: "js_error + jsval"

definition ok :: "Response \<Rightarrow> bool" where
  "ok response = (200 \<le> status response \<and> status response \<le> 299)"

text \<open>
  \<^verbatim>\<open>JSON.parse(v)\<close>. The built-in parser is a parameter \<open>parse\<close> (\<open>None\<close> when it throws
  its SyntaxError), taking the value it is called on. \<^verbatim>\<open>JSON.parse(undefined)\<close> reads the
  text \<^verbatim>\<open>undefined\<close>, which is not JSON.
\<close>

definition JSON_parse :: "(jsval \<Rightarrow> jsval option) \<Rightarrow> jsval \<Rightarrow> js_error + jsval" where
  "JSON_parse parse v =
     (if v = Undefined then Inl SyntaxError
      else (case parse v of None \<Rightarrow> Inl SyntaxError | Some data \<Rightarrow> Inr data))"

text \<open>
  The \<^verbatim>\<open>try\<close> block of \<^verbatim>\<open>fetchData\<close> up to the value handed to \<^verbatim>\<open>setServices\<close>;
  \<open>fetched\<close> is the outcome of \<^verbatim>\<open>await fetch(...)\<close> (\<open>Inl\<close> when it rejects).
\<close>

definition fetchData_try ::
  "(jsval \<Rightarrow> jsval option) \<Rightarrow> js_error + Response \<Rightarrow> js_error + jsval list" where
  "fetchData_try parse fetched =
     (case fetched of
        Inl e \<Rightarrow> Inl e
      | Inr response \<Rightarrow>
          if \<not> ok response then Inl (HttpError (status response))
          else
            (case json response of
               Inl e \<Rightarrow> Inl e
             | Inr result \<Rightarrow>
                 (case getProp result ''contents'' of
                    Inl e \<Rightarrow> Inl e
                  | Inr contents \<Rightarrow>
                      (case JSON_parse parse contents of
                         Inl e \<Rightarrow> Inl e
                       | Inr data \<Rightarrow> filterServices targetServices data))))"

text \<open>
  \<^verbatim>\<open>fetchData\<close> once its request has settled: the three setters of the \<^verbatim>\<open>try\<close> block,
  or the setter of the \<^verbatim>\<open>catch\<close> block, then the \<^verbatim>\<open>finally\<close> block. \<open>now\<close> is the
  \<^verbatim>\<open>new Date()\<close> of line 101.
\<close>

definition fetchData ::
  "(jsval \<Rightarrow> jsval option) \<Rightarrow> js_error + Response \<Rightarrow> int \<Rightarrow> AppState \<Rightarrow> AppState" where
  "fetchData parse fetched now s =
     (case fetchData_try parse fetched of
        Inr filteredServices \<Rightarrow>
          s\<lparr>services := filteredServices, lastUpdate := now, error := None\<rparr>
      | Inl e \<Rightarrow>
          s\<lparr>error := Some ''Unable to fetch service status. Please try again later.''\<rparr>)
     \<lparr>loading := False\<rparr>"

section \<open>Secondary probe\<close>

text \<open>
  \<^verbatim>\<open>checkWorkshopWebsite\<close>: \<open>startTime\<close> is the first \<^verbatim>\<open>Date.now()\<close>; when the request
  resolves, the response comes with the second reading \<open>endTime\<close>.
\<close>

definition checkWorkshopWebsite ::
  "int \<Rightarrow> js_error + Response \<times> int \<Rightarrow> AppState \<Rightarrow> AppState" where
  "checkWorkshopWebsite startTime fetched s =
     (case fetched of
        Inr (response, endTime) \<Rightarrow>
          s\<lparr>workshopStatus := \<lparr>online = ok response, latency = endTime - startTime\<rparr>\<rparr>
      | Inl e \<Rightarrow> s\<lparr>workshopStatus := \<lparr>online = False, latency = 0\<rparr>\<rparr>)"

section \<open>Events of a page session\<close>

text \<open>
  Everything that writes the state: a primary fetch settling, a probe settling, and the
  two buttons (the error view's Retry and the header's Refresh), whose handlers set the
  flags and start a fetch that settles as a later event. The interval timer only starts
  fetches.
\<close>

datatype event =
    PrimarySettles "js_error + Response" int
  | ProbeSettles int "js_error + Response \<times> int"
  | RetryClicked
  | RefreshClicked

fun step :: "(jsval \<Rightarrow> jsval option) \<Rightarrow> AppState \<Rightarrow> event \<Rightarrow> AppState" where
  "step parse s (PrimarySettles fetched now) = fetchData parse fetched now s"
| "step parse s (ProbeSettles startTime fetched) = checkWorkshopWebsite startTime fetched s"
| "step parse s RetryClicked = s\<lparr>loading := True, error := None\<rparr>"
| "step parse s RefreshClicked = s\<lparr>loading := True\<rparr>"

definition run :: "(jsval \<Rightarrow> jsval option) \<Rightarrow> AppState \<Rightarrow> event list \<Rightarrow> AppState" where
  "run parse s evs = foldl (step parse) s evs"

text \<open>An event that is a successful cycle: a primary fetch settling with nothing thrown.\<close>

definition successfulCycle :: "(jsval \<Rightarrow> jsval option) \<Rightarrow> event \<Rightarrow> bool" where
  "successfulCycle parse ev =
     (case ev of
        PrimarySettles fetched now \<Rightarrow> \<not> isl (fetchData_try parse fetched)
      | _ \<Rightarrow> False)"

section \<open>Derived-value formatters\<close>

text \<open>
  The decimal digits of an integer, as a template literal prints a \<^verbatim>\<open>Number\<close> that is an
  integer below \<open>10\<^sup>2\<^sup>1\<close> in size.
\<close>

definition digit_char :: "nat \<Rightarrow> char" where
  "digit_char d = ''0123456789'' ! d"

fun decimal_digits :: "nat \<Rightarrow> string" where
  "decimal_digits n =
     (if 10 \<le> n then decimal_digits (n div 10) @ [digit_char (n mod 10)] else [digit_char n])"

declare decimal_digits.simps [simp del]

definition ToString_int :: "int \<Rightarrow> string" where
  "ToString_int i =
     (if 0 \<le> i then decimal_digits (nat i) else CHR ''-'' # decimal_digits (nat (- i)))"

text \<open>Reading a digit string back, to say what \<open>decimal_digits\<close> prints.\<close>

definition digit_value :: "char \<Rightarrow> nat" where
  "digit_value c = of_char c - 48"

definition decimal_value :: "string \<Rightarrow> nat" where
  "decimal_value cs = foldl (\<lambda>a c. 10 * a + digit_value c) 0 cs"

text \<open>
  \<^verbatim>\<open>formatTimeAgo\<close> of \<^verbatim>\<open>UpdatedTimestamp\<close> (the spec's \<open>relativeTime\<close>). \<open>now\<close> is the
  \<^verbatim>\<open>new Date().getTime()\<close> the function reads, \<open>date\<close> the time value of its argument,
  \<open>toLocaleString\<close> the environment's \<^verbatim>\<open>Date.prototype.toLocaleString\<close>. The differences
  of the time values are integers, so \<^verbatim>\<open>Math.floor(x / 1000)\<close> is \<open>x div 1000\<close>.
\<close>

definition formatTimeAgo :: "(int \<Rightarrow> string) \<Rightarrow> int \<Rightarrow> int \<Rightarrow> string" where
  "formatTimeAgo toLocaleString now date =
     (let seconds = (now - date) div 1000 in
      if seconds < 5 then ''Just now''
      else if seconds < 60 then ToString_int seconds @ '' seconds ago''
      else if seconds < 3600 then
        (let minutes = seconds div 60 in
         ToString_int minutes @ '' '' @ (if minutes = 1 then ''minute'' else ''minutes'') @ '' ago'')
      else if seconds < 86400 then
        (let hours = seconds div 3600 in
         ToString_int hours @ '' '' @ (if hours = 1 then ''hour'' else ''hours'') @ '' ago'')
      else toLocaleString date)"

text \<open>\<^verbatim>\<open>isRecent\<close> of \<^verbatim>\<open>UpdatedTimestamp\<close> (the spec's \<open>isFresh\<close>).\<close>

definition isRecent :: "int \<Rightarrow> int \<Rightarrow> bool" where
  "isRecent now date = (now - date < 5000)"

text \<open>
  \<^verbatim>\<open>formatDate\<close> (the spec's \<open>compactRelativeTime\<close>). \<open>parseDate\<close> is \<^verbatim>\<open>new Date(dateString)\<close>
  followed by \<^verbatim>\<open>getTime()\<close>, \<open>None\<close> for an invalid date: its time value is \<^verbatim>\<open>NaN\<close>, every
  comparison is false and \<^verbatim>\<open>toLocaleString\<close> gives \<^verbatim>\<open>Invalid Date\<close>.
\<close>

definition formatDate ::
  "(int \<Rightarrow> string) \<Rightarrow> (string \<Rightarrow> int option) \<Rightarrow> int \<Rightarrow> string \<Rightarrow> string" where
  "formatDate toLocaleString parseDate now dateString =
     (case parseDate dateString of
        None \<Rightarrow> ''Invalid Date''
      | Some date \<Rightarrow>
          (let timeAgo = (now - date) div 1000 in
           if timeAgo < 60 then ''Just now''
           else if timeAgo < 3600 then ToString_int (timeAgo div 60) @ ''m ago''
           else if timeAgo < 86400 then ToString_int (timeAgo div 3600) @ ''h ago''
           else toLocaleString date))"

text \<open>
  \<^verbatim>\<open>Number.prototype.toFixed(f)\<close> as ECMAScript defines it on the exact value of the
  number: the sign is taken off, \<open>n\<close> is the integer nearest to \<open>x * 10\<^sup>f\<close> (the larger one of
  two), and its digits are padded with zeros to \<open>f + 1\<close> places before the point is set.
  From \<open>10\<^sup>2\<^sup>1\<close> on the result is the number's ordinary string, the parameter
  \<open>numberToString\<close>. The source calls it with \<open>f = 2\<close> only.
\<close>

definition toFixed :: "(rat \<Rightarrow> string) \<Rightarrow> nat \<Rightarrow> number \<Rightarrow> string" where
  "toFixed numberToString f v =
     (case v of
        NaN \<Rightarrow> ''NaN''
      | PosInfinity \<Rightarrow> ''Infinity''
      | NegInfinity \<Rightarrow> ''-Infinity''
      | Finite x0 \<Rightarrow>
          (let s = (if x0 < 0 then ''-'' else '''');
               x = (if x0 < 0 then - x0 else x0)
           in if 10 ^ 21 \<le> x then s @ numberToString x
              else
                (let n = nat \<lfloor>x * 10 ^ f + 1 / 2\<rfloor>;
                     m = decimal_digits n;
                     m = (if f \<noteq> 0 then
                            (let m = (if length m \<le> f
                                      then replicate (f + 1 - length m) CHR ''0'' @ m else m);
                                 k = length m
                             in take (k - f) m @ ''.'' @ drop (k - f) m)
                          else m)
                 in s @ m)))"

text \<open>The uptime cells: \<^verbatim>\<open>`${service.online_24_hours.toFixed(2)}%`\<close> (the spec's \<open>percentString\<close>).\<close>

definition percentString :: "(rat \<Rightarrow> string) \<Rightarrow> number \<Rightarrow> string" where
  "percentString numberToString v = toFixed numberToString 2 v @ ''%''"

text \<open>
  \<^verbatim>\<open>formatLatency\<close> (the spec's \<open>latencyString\<close>). The division is the doubles' division,
  rounded to the nearest double: the parameter \<open>fdiv\<close>.
\<close>

definition formatLatency ::
  "(rat \<Rightarrow> string) \<Rightarrow> (number \<Rightarrow> number \<Rightarrow> number) \<Rightarrow> number \<Rightarrow> string" where
  "formatLatency numberToString fdiv ms =
     toFixed numberToString 2 (fdiv ms (Finite 1000)) @ ''s''"

text \<open>The spec's reading of the filter, on typed records.\<close>

definition specNames :: "ServiceInfo list \<Rightarrow> string set" where
  "specNames spec = set (map ServiceInfo.name spec)"

definition spec_filter :: "Service list \<Rightarrow> ServiceInfo list \<Rightarrow> Service list" where
  "spec_filter rawServices spec = filter (\<lambda>s. Service.name s \<in> specNames spec) rawServices"

section \<open>Sample data\<close>

text \<open>
  Concrete inputs for the closed examples below: a feed of five services of which two are
  monitored, the relay's envelope around a \<open>contents\<close> value, a stand-in for the built-in
  parser that knows four texts (the feed's text is abbreviated), and a stand-in for
  \<^verbatim>\<open>toLocaleString\<close> that prints the time value.
\<close>

definition sampleService :: "string \<Rightarrow> bool \<Rightarrow> Service" where
  "sampleService n up =
     \<lparr>Service.name = n, online = up, online_24_hours = Finite 100,
      online_7_days = Finite (9995 / 100), last_success = ''2024-05-01T10:00:00Z'',
      last_error = ''2024-04-30T22:15:00Z'', latency = Finite 120,
      failures_24_hours = Finite 0\<rparr>"

definition sampleFeed :: "Service list" where
  "sampleFeed =
     [sampleService ''Forums'' True, sampleService ''Arma Reforger Game API'' False,
      sampleService ''Store'' True, sampleService ''Main Page'' True,
      sampleService ''Wiki'' True]"

definition sampleParse :: "jsval \<Rightarrow> jsval option" where
  "sampleParse v =
     (if v = Str ''[]'' then Some (Arr [])
      else if v = Str ''{}'' then Some (Obj [])
      else if v = Str ''[null]'' then Some (Arr [Null])
      else if v = Str ''<sample feed>'' then Some (Arr (map jsService sampleFeed))
      else None)"

definition envelope :: "jsval \<Rightarrow> jsval" where
  "envelope v = Obj [(''contents'', v), (''status'', Obj [(''http_code'', Num (Finite 200))])]"

definition epochLocale :: "int \<Rightarrow> string" where
  "epochLocale t = ''t='' @ ToString_int t"

text \<open>A state after an earlier successful cycle, with one service stored.\<close>

definition sampleState :: AppState where
  "sampleState =
     \<lparr>services = map jsService [sampleService ''Main Page'' True], loading = False,
      error = None, lastUpdate = 61000, workshopStatus = \<lparr>online = True, latency = 340\<rparr>\<rparr>"

text \<open>
  Stand-ins for the string of a number from \<open>10\<^sup>2\<^sup>1\<close> on and for the date parser, which
  knows the sample's \<open>last_success\<close>.
\<close>

definition sampleNumberToString :: "rat \<Rightarrow> string" where
  "sampleNumberToString x = ''1e+21''"

definition sampleParseDate :: "string \<Rightarrow> int option" where
  "sampleParseDate text =
     (if text = ''2024-05-01T10:00:00Z'' then Some 1714557600000 else None)"

text \<open>
  The number a program means by the literal \<^verbatim>\<open>99.995\<close>: the double nearest to it, which
  lies just above it.
\<close>

definition double_99_995 :: rat where
  "double_99_995 = 7036522574045512 / 2 ^ 46"

section \<open>Properties of the service filter\<close>

lemma getProp_jsService_name: "getProp (jsService s) ''name'' = Inr (Str (Service.name s))"
  by (simp add: jsService_def)

lemma isTarget_jsService:
  "isTarget spec (jsService s) = Inr (Service.name s \<in> specNames spec)"
  by (auto simp: isTarget_def getProp_jsService_name specNames_def)

lemma filter_elems_services:
  "filter_elems (isTarget spec) (map jsService raw) = Inr (map jsService (spec_filter raw spec))"
  by (induction raw) (simp_all add: isTarget_jsService spec_filter_def)

lemma getProp_defined:
  "x \<noteq> Null \<Longrightarrow> x \<noteq> Undefined \<Longrightarrow> \<exists>v. getProp x key = Inr v"
  by (cases x) (simp_all split: option.split)

lemma isTarget_defined:
  "x \<noteq> Null \<Longrightarrow> x \<noteq> Undefined \<Longrightarrow> \<exists>b. isTarget spec x = Inr b"
  using getProp_defined [of x "''name''"] by (auto simp: isTarget_def)

text \<open>
  On any array without \<^verbatim>\<open>null\<close> entries, whatever its entries are, no exception is thrown
  and the callback decides entry by entry.
\<close>

lemma filter_elems_filter:
  assumes "\<forall>x \<in> set xs. x \<noteq> Null \<and> x \<noteq> Undefined"
  shows "filter_elems (isTarget spec) xs = Inr (filter (\<lambda>x. isTarget spec x = Inr True) xs)"
  using assms
proof (induction xs)
  case Nil
  then show ?case by simp
next
  case (Cons x xs)
  then obtain b where "isTarget spec x = Inr b"
    using isTarget_defined [of x spec] by auto
  with Cons show ?case by auto
qed

text \<open>
  C1. For every sequence \<open>raw\<close> of service records and every monitored-service spec, the
  filter applied to the feed's array returns without an exception exactly the entries whose
  \<open>name\<close> is one of the spec's names: the result is \<open>spec_filter raw spec\<close>, which is a
  subsequence of \<open>raw\<close> (the feed's order is kept, not the spec's), holds only entries of
  \<open>raw\<close> with a name of the spec, and holds every such entry.
\<close>

theorem filter_exact:
  "filterServices spec (Arr (map jsService raw)) = Inr (map jsService (spec_filter raw spec))
   \<and> subseq (spec_filter raw spec) raw
   \<and> (\<forall>s \<in> set (spec_filter raw spec). s \<in> set raw \<and> Service.name s \<in> specNames spec)
   \<and> (\<forall>s \<in> set raw. Service.name s \<in> specNames spec \<longrightarrow> s \<in> set (spec_filter raw spec))"
  by (simp add: filterServices_def array_filter_def filter_elems_services spec_filter_def)

theorem filter_exact_witness:
  "filterServices targetServices (Arr (map jsService sampleFeed)) =
     Inr (map jsService
       [sampleService ''Arma Reforger Game API'' False, sampleService ''Main Page'' True])
   \<and> subseq [sampleService ''Arma Reforger Game API'' False, sampleService ''Main Page'' True]
       sampleFeed"
proof -
  have "spec_filter sampleFeed targetServices =
      [sampleService ''Arma Reforger Game API'' False, sampleService ''Main Page'' True]"
    by (simp add: spec_filter_def specNames_def targetServices_def sampleFeed_def
        sampleService_def)
  with filter_exact [of targetServices sampleFeed] show ?thesis by simp
qed

section \<open>Properties of the refresh cycle\<close>

text \<open>A feed of service records under an ok response is a cycle that throws nothing.\<close>

lemma fetchData_try_feed:
  assumes "ok response" and "json response = Inr result"
    and "getProp result ''contents'' = Inr contents" and "contents \<noteq> Undefined"
    and "parse contents = Some (Arr (map jsService raw))"
  shows "fetchData_try parse (Inr response) = Inr (map jsService (spec_filter raw targetServices))"
  using assms
  by (simp add: fetchData_try_def JSON_parse_def filterServices_def array_filter_def
      filter_elems_services)

text \<open>
  A payload that parses to something other than an array, or to an array with a
  \<^verbatim>\<open>null\<close> entry, makes the filter throw: the cycle is a failed one.
\<close>

lemma fetchData_try_not_array:
  assumes "ok response" and "json response = Inr result"
    and "getProp result ''contents'' = Inr contents" and "contents \<noteq> Undefined"
    and "parse contents = Some data" and "\<forall>xs. data \<noteq> Arr xs"
  shows "fetchData_try parse (Inr response) = Inl TypeError"
  using assms
  by (cases data)
    (simp_all add: fetchData_try_def JSON_parse_def filterServices_def array_filter_def)

lemma fetchData_try_null_entry:
  assumes "ok response" and "json response = Inr result"
    and "getProp result ''contents'' = Inr contents" and "contents \<noteq> Undefined"
    and "parse contents = Some (Arr (Null # xs))"
  shows "fetchData_try parse (Inr response) = Inl TypeError"
  using assms
  by (simp add: fetchData_try_def JSON_parse_def filterServices_def array_filter_def
      isTarget_def)

text \<open>
  C3. When the probe's request resolves with a response, \<open>online\<close> is whether the status is
  a success (200..299) and \<open>latency\<close> is the second clock reading minus the first, whatever
  the status; when the request throws, the result is exactly \<open>online = False, latency = 0\<close>.
  In both cases the probe leaves the page-level error, and every other cell, as it was.
\<close>

theorem probe_result:
  "workshopStatus (checkWorkshopWebsite startTime (Inr (response, endTime)) s) =
     \<lparr>online = (200 \<le> status response \<and> status response \<le> 299),
      latency = endTime - startTime\<rparr>
   \<and> workshopStatus (checkWorkshopWebsite startTime (Inl e) s) = \<lparr>online = False, latency = 0\<rparr>
   \<and> error (checkWorkshopWebsite startTime fetched s) = error s
   \<and> services (checkWorkshopWebsite startTime fetched s) = services s
   \<and> loading (checkWorkshopWebsite startTime fetched s) = loading s
   \<and> lastUpdate (checkWorkshopWebsite startTime fetched s) = lastUpdate s"
  by (simp add: checkWorkshopWebsite_def ok_def split: sum.split prod.split)

text \<open>
  C4, as stated: whenever the primary fetch completes and parses without error, the cycle
  ends with \<open>error\<close> null and \<open>lastUpdate\<close> the current time. It fails when the payload
  that was fetched and parsed is not a sequence of services: under an ok response whose
  \<open>contents\<close> parse to an object, or to an array with a \<^verbatim>\<open>null\<close> entry, the filter throws,
  the error is set and \<open>lastUpdate\<close> stays.
\<close>

theorem success_payload_counterexample:
  "ok \<lparr>status = 200, json = Inr (envelope (Str ''{}''))\<rparr>
   \<and> JSON_parse sampleParse (Str ''{}'') = Inr (Obj [])
   \<and> error (fetchData sampleParse
        (Inr \<lparr>status = 200, json = Inr (envelope (Str ''{}''))\<rparr>) 121000 sampleState) =
      Some ''Unable to fetch service status. Please try again later.''
   \<and> lastUpdate (fetchData sampleParse
        (Inr \<lparr>status = 200, json = Inr (envelope (Str ''{}''))\<rparr>) 121000 sampleState) = 61000
   \<and> JSON_parse sampleParse (Str ''[null]'') = Inr (Arr [Null])
   \<and> error (fetchData sampleParse
        (Inr \<lparr>status = 200, json = Inr (envelope (Str ''[null]''))\<rparr>) 121000 sampleState) =
      Some ''Unable to fetch service status. Please try again later.''
   \<and> lastUpdate (fetchData sampleParse
        (Inr \<lparr>status = 200, json = Inr (envelope (Str ''[null]''))\<rparr>) 121000 sampleState) = 61000"
  by (simp add: ok_def envelope_def sampleParse_def JSON_parse_def fetchData_def
      fetchData_try_def filterServices_def array_filter_def isTarget_def sampleState_def)

text \<open>
  C4, amended. Whenever the relay answers with a success status, the body is an envelope
  whose \<open>contents\<close> parse without error, and the parsed payload is an array without
  \<^verbatim>\<open>null\<close> entries, the cycle ends with \<open>error\<close> null and \<open>lastUpdate\<close> equal to the clock
  reading of that cycle (and with the entries the filter keeps stored).
\<close>

theorem success_state:
  assumes "ok response" and "json response = Inr result"
    and "getProp result ''contents'' = Inr contents" and "contents \<noteq> Undefined"
    and "parse contents = Some (Arr xs)"
    and "\<forall>x \<in> set xs. x \<noteq> Null \<and> x \<noteq> Undefined"
  shows "error (fetchData parse (Inr response) now s) = None
    \<and> lastUpdate (fetchData parse (Inr response) now s) = now
    \<and> services (fetchData parse (Inr response) now s) =
        filter (\<lambda>x. isTarget targetServices x = Inr True) xs"
proof -
  from assms have "fetchData_try parse (Inr response) =
      Inr (filter (\<lambda>x. isTarget targetServices x = Inr True) xs)"
    by (simp add: fetchData_try_def JSON_parse_def filterServices_def array_filter_def
        filter_elems_filter)
  then show ?thesis by (simp add: fetchData_def)
qed

theorem success_state_witness:
  "error (fetchData sampleParse
       (Inr \<lparr>status = 200, json = Inr (envelope (Str ''<sample feed>''))\<rparr>) 61000
       ((initialState 1000)
          \<lparr>error := Some ''Unable to fetch service status. Please try again later.''\<rparr>)) = None
   \<and> lastUpdate (fetchData sampleParse
       (Inr \<lparr>status = 200, json = Inr (envelope (Str ''<sample feed>''))\<rparr>) 61000
       ((initialState 1000)
          \<lparr>error := Some ''Unable to fetch service status. Please try again later.''\<rparr>)) = 61000"
proof -
  have a: "ok \<lparr>status = 200, json = Inr (envelope (Str ''<sample feed>''))\<rparr>"
    by (simp add: ok_def)
  have b: "json \<lparr>status = 200, json = Inr (envelope (Str ''<sample feed>''))\<rparr> =
      Inr (envelope (Str ''<sample feed>''))"
    by simp
  have c: "getProp (envelope (Str ''<sample feed>'')) ''contents'' = Inr (Str ''<sample feed>'')"
    by (simp add: envelope_def)
  have d: "Str ''<sample feed>'' \<noteq> Undefined" by simp
  have e: "sampleParse (Str ''<sample feed>'') = Some (Arr (map jsService sampleFeed))"
    by (simp add: sampleParse_def)
  have f: "\<forall>x \<in> set (map jsService sampleFeed). x \<noteq> Null \<and> x \<noteq> Undefined"
    by (simp add: jsService_def)
  from success_state
    [where parse = sampleParse and contents = "Str ''<sample feed>''" and now = 61000
       and s = "(initialState 1000)
          \<lparr>error := Some ''Unable to fetch service status. Please try again later.''\<rparr>",
      OF a b c d e f]
  show ?thesis by simp
qed

text \<open>
  C10. Once a primary fetch has settled, with a result or with any exception, the
  \<open>loading\<close> flag is false, whatever the state was and whatever events came before.
\<close>

theorem loading_cleared:
  "\<not> loading (fetchData parse fetched now s)
   \<and> \<not> loading (run parse s (evs @ [PrimarySettles fetched now]))"
  by (simp add: fetchData_def run_def split: sum.split)

text \<open>
  C2. Whenever the primary fetch fails, the cycle sets the page-level error to the one
  fixed message and leaves the stored service list as it was. That holds for every
  exception of the \<^verbatim>\<open>try\<close> block, and in particular when the relay answers with a
  non-success status, when the envelope has no \<open>contents\<close>, and when \<open>contents\<close> is not
  valid JSON; the message is the same in all of them.
\<close>

theorem failure_state:
  assumes "isl (fetchData_try parse fetched)
    \<or> (\<exists>response. fetched = Inr response \<and> \<not> ok response)
    \<or> (\<exists>response result. fetched = Inr response \<and> ok response \<and> json response = Inr result
          \<and> getProp result ''contents'' = Inr Undefined)
    \<or> (\<exists>response result contents. fetched = Inr response \<and> ok response
          \<and> json response = Inr result \<and> getProp result ''contents'' = Inr contents
          \<and> parse contents = None)"
  shows "error (fetchData parse fetched now s) =
      Some ''Unable to fetch service status. Please try again later.''
    \<and> services (fetchData parse fetched now s) = services s"
proof -
  from assms have "isl (fetchData_try parse fetched)"
    by (auto simp: fetchData_try_def JSON_parse_def)
  then obtain e where "fetchData_try parse fetched = Inl e"
    by (cases "fetchData_try parse fetched") auto
  then show ?thesis by (simp add: fetchData_def)
qed

theorem failure_state_witness:
  "(error (fetchData sampleParse
        (Inr \<lparr>status = 500, json = Inr (envelope (Str ''[]''))\<rparr>) 121000 sampleState) =
      Some ''Unable to fetch service status. Please try again later.''
    \<and> services (fetchData sampleParse
        (Inr \<lparr>status = 500, json = Inr (envelope (Str ''[]''))\<rparr>) 121000 sampleState) =
      map jsService [sampleService ''Main Page'' True])
   \<and> (error (fetchData sampleParse
        (Inr \<lparr>status = 200, json = Inr (Obj [])\<rparr>) 121000 sampleState) =
      Some ''Unable to fetch service status. Please try again later.''
    \<and> services (fetchData sampleParse
        (Inr \<lparr>status = 200, json = Inr (Obj [])\<rparr>) 121000 sampleState) =
      map jsService [sampleService ''Main Page'' True])
   \<and> (error (fetchData sampleParse
        (Inr \<lparr>status = 200, json = Inr (envelope (Str ''<html>''))\<rparr>) 121000 sampleState) =
      Some ''Unable to fetch service status. Please try again later.''
    \<and> services (fetchData sampleParse
        (Inr \<lparr>status = 200, json = Inr (envelope (Str ''<html>''))\<rparr>) 121000 sampleState) =
      map jsService [sampleService ''Main Page'' True])"
proof -
  have a: "\<exists>response.
      (Inr \<lparr>status = 500, json = Inr (envelope (Str ''[]''))\<rparr> :: js_error + Response)
        = Inr response \<and> \<not> ok response"
    by (simp add: ok_def)
  have b: "\<exists>response result.
      (Inr \<lparr>status = 200, json = Inr (Obj [])\<rparr> :: js_error + Response) = Inr response
      \<and> ok response \<and> json response = Inr result
      \<and> getProp result ''contents'' = Inr Undefined"
    by (simp add: ok_def)
  have c: "\<exists>response result contents.
      (Inr \<lparr>status = 200, json = Inr (envelope (Str ''<html>''))\<rparr> :: js_error + Response)
        = Inr response
      \<and> ok response \<and> json response = Inr result
      \<and> getProp result ''contents'' = Inr contents \<and> sampleParse contents = None"
    by (simp add: ok_def envelope_def sampleParse_def)
  have s: "services sampleState = map jsService [sampleService ''Main Page'' True]"
    by (simp add: sampleState_def)
  from a b c show ?thesis
    using
      failure_state [of sampleParse
        "Inr \<lparr>status = 500, json = Inr (envelope (Str ''[]''))\<rparr>" 121000 sampleState]
      failure_state [of sampleParse
        "Inr \<lparr>status = 200, json = Inr (Obj [])\<rparr>" 121000 sampleState]
      failure_state [of sampleParse
        "Inr \<lparr>status = 200, json = Inr (envelope (Str ''<html>''))\<rparr>" 121000 sampleState]
    unfolding s by blast
qed

text \<open>Only a successful cycle writes \<open>lastUpdate\<close>.\<close>

lemma step_frame:
  "\<not> successfulCycle parse ev \<Longrightarrow> lastUpdate (step parse s ev) = lastUpdate s"
  by (cases ev)
    (auto simp: successfulCycle_def fetchData_def checkWorkshopWebsite_def
      split: sum.splits prod.splits)

lemma run_frame:
  "\<forall>ev \<in> set evs. \<not> successfulCycle parse ev \<Longrightarrow>
   lastUpdate (run parse s evs) = lastUpdate s"
  unfolding run_def by (induction evs arbitrary: s) (simp_all add: step_frame)

text \<open>
  C9. A failed primary fetch leaves \<open>lastUpdate\<close> as it was, and so does every event that
  is not a successful cycle: after any events without a successful cycle \<open>lastUpdate\<close> is
  still the session start, and after a successful cycle followed by such events it is
  still that cycle's time.
\<close>

theorem lastUpdate_frame:
  "(isl (fetchData_try parse fetched) \<longrightarrow>
      lastUpdate (fetchData parse fetched now s) = lastUpdate s)
   \<and> (\<not> successfulCycle parse ev \<longrightarrow> lastUpdate (step parse s ev) = lastUpdate s)
   \<and> ((\<forall>ev \<in> set evs. \<not> successfulCycle parse ev) \<longrightarrow>
        lastUpdate (run parse (initialState sessionStart) evs) = sessionStart)
   \<and> (\<not> isl (fetchData_try parse fetched) \<and> (\<forall>ev \<in> set evs. \<not> successfulCycle parse ev) \<longrightarrow>
        lastUpdate (run parse s (PrimarySettles fetched now # evs)) = now)"
proof (intro conjI impI)
  assume "isl (fetchData_try parse fetched)"
  then show "lastUpdate (fetchData parse fetched now s) = lastUpdate s"
    by (cases "fetchData_try parse fetched") (simp_all add: fetchData_def)
next
  assume "\<not> successfulCycle parse ev"
  then show "lastUpdate (step parse s ev) = lastUpdate s" by (rule step_frame)
next
  assume "\<forall>ev \<in> set evs. \<not> successfulCycle parse ev"
  then show "lastUpdate (run parse (initialState sessionStart) evs) = sessionStart"
    by (simp add: run_frame initialState_def)
next
  assume a: "\<not> isl (fetchData_try parse fetched)
    \<and> (\<forall>ev \<in> set evs. \<not> successfulCycle parse ev)"
  then have "lastUpdate (fetchData parse fetched now s) = now"
    by (cases "fetchData_try parse fetched") (simp_all add: fetchData_def)
  moreover have "run parse s (PrimarySettles fetched now # evs) =
      run parse (fetchData parse fetched now s) evs"
    by (simp add: run_def)
  ultimately show "lastUpdate (run parse s (PrimarySettles fetched now # evs)) = now"
    using a by (simp add: run_frame)
qed

theorem lastUpdate_frame_witness:
  "lastUpdate (run sampleParse (initialState 1000)
      [PrimarySettles (Inr \<lparr>status = 500, json = Inl SyntaxError\<rparr>) 2000,
       ProbeSettles 2000 (Inl NetworkError), RetryClicked,
       PrimarySettles (Inl NetworkError) 3000]) = 1000
   \<and> lastUpdate (run sampleParse (initialState 1000)
      [PrimarySettles
         (Inr \<lparr>status = 200, json = Inr (envelope (Str ''<sample feed>''))\<rparr>) 61000,
       RefreshClicked, PrimarySettles (Inl NetworkError) 121000]) = 61000"
proof -
  have good: "\<not> isl (fetchData_try sampleParse
      (Inr \<lparr>status = 200, json = Inr (envelope (Str ''<sample feed>''))\<rparr>))"
    using fetchData_try_feed
      [of "\<lparr>status = 200, json = Inr (envelope (Str ''<sample feed>''))\<rparr>"
        "envelope (Str ''<sample feed>'')" "Str ''<sample feed>''" sampleParse sampleFeed]
    by (simp add: ok_def envelope_def sampleParse_def)
  have bad: "\<forall>ev \<in> set
      [PrimarySettles (Inr \<lparr>status = 500, json = Inl SyntaxError\<rparr>) 2000,
       ProbeSettles 2000 (Inl NetworkError), RetryClicked,
       PrimarySettles (Inl NetworkError) 3000]. \<not> successfulCycle sampleParse ev"
    by (simp add: successfulCycle_def fetchData_try_def ok_def)
  have bad2: "\<forall>ev \<in> set [RefreshClicked, PrimarySettles (Inl NetworkError) 121000].
      \<not> successfulCycle sampleParse ev"
    by (simp add: successfulCycle_def fetchData_try_def)
  from lastUpdate_frame [of sampleParse
      "Inr \<lparr>status = 200, json = Inr (envelope (Str ''<sample feed>''))\<rparr>" 61000
      "initialState 1000" RefreshClicked
      "[PrimarySettles (Inr \<lparr>status = 500, json = Inl SyntaxError\<rparr>) 2000,
       ProbeSettles 2000 (Inl NetworkError), RetryClicked,
       PrimarySettles (Inl NetworkError) 3000]" 1000] bad
  have first: "lastUpdate (run sampleParse (initialState 1000)
      [PrimarySettles (Inr \<lparr>status = 500, json = Inl SyntaxError\<rparr>) 2000,
       ProbeSettles 2000 (Inl NetworkError), RetryClicked,
       PrimarySettles (Inl NetworkError) 3000]) = 1000"
    by blast
  from lastUpdate_frame [of sampleParse
      "Inr \<lparr>status = 200, json = Inr (envelope (Str ''<sample feed>''))\<rparr>" 61000
      "initialState 1000" RefreshClicked
      "[RefreshClicked, PrimarySettles (Inl NetworkError) 121000]" 1000] good bad2
  have second: "lastUpdate (run sampleParse (initialState 1000)
      [PrimarySettles
         (Inr \<lparr>status = 200, json = Inr (envelope (Str ''<sample feed>''))\<rparr>) 61000,
       RefreshClicked, PrimarySettles (Inl NetworkError) 121000]) = 61000"
    by blast
  from first second show ?thesis by (rule conjI)
qed

section \<open>Properties of the formatters\<close>

text \<open>Printing digits: the two cases of \<open>decimal_digits\<close> as conditional equations.\<close>

lemma decimal_digits_one: "n < 10 \<Longrightarrow> decimal_digits n = [digit_char n]"
  by (simp add: decimal_digits.simps)

lemma decimal_digits_more:
  "10 \<le> n \<Longrightarrow> decimal_digits n = decimal_digits (n div 10) @ [digit_char (n mod 10)]"
  by (subst decimal_digits.simps) simp

lemma digit_char_zero: "digit_char 0 = CHR ''0''"
  by (simp add: digit_char_def)

lemma floor_rat_numeral: "\<lfloor>numeral a / numeral b :: rat\<rfloor> = numeral a div numeral b"
  using floor_divide_of_int_eq [of "numeral a" "numeral b", where ?'a = rat] by simp

lemmas print_simps = decimal_digits_one decimal_digits_more digit_char_def ToString_int_def

lemma decimal_digits_two:
  "10 \<le> n \<Longrightarrow> n < 100 \<Longrightarrow> decimal_digits n = [digit_char (n div 10), digit_char (n mod 10)]"
  by (simp add: decimal_digits_more decimal_digits_one)

lemma decimal_digits_hundreds:
  assumes "100 \<le> n"
  shows "decimal_digits n =
    decimal_digits (n div 100) @ [digit_char (n div 10 mod 10), digit_char (n mod 10)]"
proof -
  have "10 \<le> n" and "10 \<le> n div 10" using assms by auto
  then have "decimal_digits n =
      (decimal_digits (n div 10 div 10) @ [digit_char (n div 10 mod 10)])
        @ [digit_char (n mod 10)]"
    by (simp add: decimal_digits_more [of n] decimal_digits_more [of "n div 10"])
  moreover have "n div 10 div 10 = n div 100" by (simp add: div_mult2_eq [symmetric])
  ultimately show ?thesis by simp
qed

lemma decimal_digits_nonempty: "decimal_digits n \<noteq> []"
  by (cases "n < 10") (simp_all add: decimal_digits_one decimal_digits_more)

text \<open>\<open>decimal_digits\<close> prints its number: read back, the digits give it again.\<close>

lemma digit_value_digit_char: "d < 10 \<Longrightarrow> digit_value (digit_char d) = d"
proof -
  assume "d < 10"
  then have "d \<in> {0, 1, 2, 3, 4, 5, 6, 7, 8, 9}" by auto
  then show ?thesis by (auto simp: digit_char_def digit_value_def)
qed

lemma decimal_value_digits: "decimal_value (decimal_digits n) = n"
proof (induction n rule: decimal_digits.induct)
  case (1 n)
  show ?case
  proof (cases "10 \<le> n")
    case True
    with 1 have "decimal_value (decimal_digits (n div 10)) = n div 10" by simp
    with True show ?thesis
      by (simp add: decimal_digits_more decimal_value_def digit_value_digit_char)
  next
    case False
    then show ?thesis
      by (simp add: decimal_digits_one decimal_value_def digit_value_digit_char)
  qed
qed

text \<open>
  C6. \<open>isRecent\<close> (the spec's \<open>isFresh\<close>) is true exactly when the milliseconds elapsed since
  the timestamp are fewer than 5000: true one millisecond before five seconds, false at
  exactly five seconds and from there on.
\<close>

theorem fresh_iff:
  "(isRecent (date + elapsed) date \<longleftrightarrow> elapsed < 5 * 1000)
   \<and> isRecent (date + 4999) date \<and> \<not> isRecent (date + 5000) date"
  by (simp add: isRecent_def)

text \<open>
  C5. With \<open>s\<close> the whole seconds elapsed since the timestamp, \<open>formatTimeAgo\<close> (the spec's
  \<open>relativeTime\<close>) gives \<open>Just now\<close> below 5, \<open>s seconds ago\<close> from 5 to 59, the minutes
  \<open>s div 60\<close> with \<open>minute\<close> exactly for 1 and \<open>minutes\<close> otherwise from 60 to 3599, the
  hours \<open>s div 3600\<close> likewise from 3600 to 86399, and the locale's string of the date from
  86400 on. At 4, 5, 59, 60, 3599 and 3600 seconds the strings are \<open>Just now\<close>,
  \<open>5 seconds ago\<close>, \<open>59 seconds ago\<close>, \<open>1 minute ago\<close>, \<open>59 minutes ago\<close> and \<open>1 hour ago\<close>.
\<close>

theorem formatTimeAgo_buckets:
  assumes "s = (now - date) div 1000"
  shows "(s < 5 \<longrightarrow> formatTimeAgo toLocale now date = ''Just now'')
    \<and> (5 \<le> s \<and> s < 60 \<longrightarrow>
         formatTimeAgo toLocale now date = ToString_int s @ '' seconds ago'')
    \<and> (60 \<le> s \<and> s < 3600 \<longrightarrow>
         formatTimeAgo toLocale now date =
           ToString_int (s div 60) @ '' '' @ (if s div 60 = 1 then ''minute'' else ''minutes'')
             @ '' ago'')
    \<and> (3600 \<le> s \<and> s < 86400 \<longrightarrow>
         formatTimeAgo toLocale now date =
           ToString_int (s div 3600) @ '' '' @ (if s div 3600 = 1 then ''hour'' else ''hours'')
             @ '' ago'')
    \<and> (86400 \<le> s \<longrightarrow> formatTimeAgo toLocale now date = toLocale date)
    \<and> (s = 4 \<longrightarrow> formatTimeAgo toLocale now date = ''Just now'')
    \<and> (s = 5 \<longrightarrow> formatTimeAgo toLocale now date = ''5 seconds ago'')
    \<and> (s = 59 \<longrightarrow> formatTimeAgo toLocale now date = ''59 seconds ago'')
    \<and> (s = 60 \<longrightarrow> formatTimeAgo toLocale now date = ''1 minute ago'')
    \<and> (s = 3599 \<longrightarrow> formatTimeAgo toLocale now date = ''59 minutes ago'')
    \<and> (s = 3600 \<longrightarrow> formatTimeAgo toLocale now date = ''1 hour ago'')"
proof -
  have F: "formatTimeAgo toLocale now date =
     (if s < 5 then ''Just now''
      else if s < 60 then ToString_int s @ '' seconds ago''
      else if s < 3600 then
         ToString_int (s div 60) @ '' '' @ (if s div 60 = 1 then ''minute'' else ''minutes'')
           @ '' ago''
      else if s < 86400 then
         ToString_int (s div 3600) @ '' '' @ (if s div 3600 = 1 then ''hour'' else ''hours'')
           @ '' ago''
      else toLocale date)"
    unfolding formatTimeAgo_def assms Let_def by (rule refl)
  have d5: "ToString_int 5 = ''5''" and d59: "ToString_int 59 = ''59''"
    and d1: "ToString_int 1 = ''1''"
    by (simp_all add: print_simps)
  show ?thesis
    unfolding F by (simp add: d5 d59 d1)
qed

theorem formatTimeAgo_buckets_witness:
  "formatTimeAgo epochLocale 1700000004999 1700000000000 = ''Just now''
   \<and> formatTimeAgo epochLocale 1700000042000 1700000000000 = ''42 seconds ago''
   \<and> formatTimeAgo epochLocale 1700000060000 1700000000000 = ''1 minute ago''
   \<and> formatTimeAgo epochLocale 1700007200000 1700000000000 = ''2 hours ago''
   \<and> formatTimeAgo epochLocale 1700086400000 1700000000000 = epochLocale 1700000000000"
proof -
  have "formatTimeAgo epochLocale 1700000004999 1700000000000 = ''Just now''"
    using formatTimeAgo_buckets [of 4 1700000004999 1700000000000 epochLocale] by simp
  moreover have "formatTimeAgo epochLocale 1700000042000 1700000000000 = ''42 seconds ago''"
    using formatTimeAgo_buckets [of 42 1700000042000 1700000000000 epochLocale]
    by (simp add: print_simps)
  moreover have "formatTimeAgo epochLocale 1700000060000 1700000000000 = ''1 minute ago''"
    using formatTimeAgo_buckets [of 60 1700000060000 1700000000000 epochLocale]
    by (simp add: print_simps)
  moreover have "formatTimeAgo epochLocale 1700007200000 1700000000000 = ''2 hours ago''"
    using formatTimeAgo_buckets [of 7200 1700007200000 1700000000000 epochLocale]
    by (simp add: print_simps)
  moreover have
    "formatTimeAgo epochLocale 1700086400000 1700000000000 = epochLocale 1700000000000"
    using formatTimeAgo_buckets [of 86400 1700086400000 1700000000000 epochLocale] by simp
  ultimately show ?thesis by simp
qed

text \<open>The digits \<open>toFixed(2)\<close> sets around the point, for any integer \<open>n\<close>.\<close>

lemma point_two:
  "(let m = decimal_digits n;
        m = (if length m \<le> 2 then replicate (2 + 1 - length m) CHR ''0'' @ m else m);
        k = length m
    in take (k - 2) m @ ''.'' @ drop (k - 2) m) =
   decimal_digits (n div 100) @ ''.'' @ [digit_char (n div 10 mod 10), digit_char (n mod 10)]"
proof -
  consider "n < 10" | "10 \<le> n" "n < 100" | "100 \<le> n" by linarith
  then show ?thesis
  proof cases
    case 1
    then show ?thesis
      by (simp add: decimal_digits_one Let_def numeral_3_eq_3 numeral_2_eq_2 digit_char_zero)
  next
    case 2
    then have "n div 100 = 0" by simp
    with 2 show ?thesis
      by (simp add: decimal_digits_two decimal_digits_one Let_def digit_char_zero)
  next
    case 3
    then show ?thesis
      by (simp add: decimal_digits_hundreds [of n] Let_def decimal_digits_nonempty)
  qed
qed

lemma toFixed_2_nonneg:
  assumes "0 \<le> x" and "x < 10 ^ 21"
  shows "toFixed ts 2 (Finite x) =
    decimal_digits (nat \<lfloor>x * 100 + 1 / 2\<rfloor> div 100) @ ''.'' @
      [digit_char (nat \<lfloor>x * 100 + 1 / 2\<rfloor> div 10 mod 10),
       digit_char (nat \<lfloor>x * 100 + 1 / 2\<rfloor> mod 10)]"
proof -
  from assms have "toFixed ts 2 (Finite x) =
    (let m = decimal_digits (nat \<lfloor>x * 100 + 1 / 2\<rfloor>);
        m = (if length m \<le> 2 then replicate (2 + 1 - length m) CHR ''0'' @ m else m);
        k = length m
    in take (k - 2) m @ ''.'' @ drop (k - 2) m)"
    by (simp add: toFixed_def Let_def)
  then show ?thesis by (simp only: point_two)
qed

lemma toFixed_2_neg:
  assumes "x < 0" and "- (10 ^ 21) < x"
  shows "toFixed ts 2 (Finite x) =
    ''-'' @ decimal_digits (nat \<lfloor>- x * 100 + 1 / 2\<rfloor> div 100) @ ''.'' @
      [digit_char (nat \<lfloor>- x * 100 + 1 / 2\<rfloor> div 10 mod 10),
       digit_char (nat \<lfloor>- x * 100 + 1 / 2\<rfloor> mod 10)]"
proof -
  from assms have "toFixed ts 2 (Finite x) =
    ''-'' @ (let m = decimal_digits (nat \<lfloor>- x * 100 + 1 / 2\<rfloor>);
        m = (if length m \<le> 2 then replicate (2 + 1 - length m) CHR ''0'' @ m else m);
        k = length m
    in take (k - 2) m @ ''.'' @ drop (k - 2) m)"
    by (simp add: toFixed_def Let_def)
  then show ?thesis by (simp only: point_two)
qed

text \<open>
  \<open>double_99_995\<close> is a double (a 53-bit significand over \<open>2\<^sup>4\<^sup>6\<close>) within half a unit in the
  last place of 99.995.
\<close>

lemma double_99_995_nearest:
  "double_99_995 = 7036522574045512 / 2 ^ 46
   \<and> (2::int) ^ 52 \<le> 7036522574045512 \<and> (7036522574045512::int) < 2 ^ 53
   \<and> \<bar>double_99_995 - 99995 / 1000\<bar> < 1 / 2 ^ 47"
  by (simp add: double_99_995_def)

text \<open>
  C7. \<open>percentString\<close> prints a number below \<open>10\<^sup>2\<^sup>1\<close> in size as its sign, the digits of
  the integer part, a point, exactly two decimals and \<open>%\<close>, the value rounded to the nearest
  hundredth with a half rounded up in size. The literal 99.995 gives \<open>100.00%\<close>, as does the
  exact 99.995, and 0 gives \<open>0.00%\<close>.
\<close>

theorem percentString_two_decimals:
  "(\<bar>x\<bar> < 10 ^ 21 \<longrightarrow>
      percentString ts (Finite x) =
        (if x < 0 then ''-'' else []) @
        decimal_digits (nat \<lfloor>\<bar>x\<bar> * 100 + 1 / 2\<rfloor> div 100) @ ''.'' @
        [digit_char (nat \<lfloor>\<bar>x\<bar> * 100 + 1 / 2\<rfloor> div 10 mod 10),
         digit_char (nat \<lfloor>\<bar>x\<bar> * 100 + 1 / 2\<rfloor> mod 10)] @ ''%'')
   \<and> percentString ts (Finite double_99_995) = ''100.00%''
   \<and> percentString ts (Finite (99995 / 1000)) = ''100.00%''
   \<and> percentString ts (Finite 0) = ''0.00%''"
proof (intro conjI impI)
  assume b: "\<bar>x\<bar> < 10 ^ 21"
  show "percentString ts (Finite x) =
        (if x < 0 then ''-'' else []) @
        decimal_digits (nat \<lfloor>\<bar>x\<bar> * 100 + 1 / 2\<rfloor> div 100) @ ''.'' @
        [digit_char (nat \<lfloor>\<bar>x\<bar> * 100 + 1 / 2\<rfloor> div 10 mod 10),
         digit_char (nat \<lfloor>\<bar>x\<bar> * 100 + 1 / 2\<rfloor> mod 10)] @ ''%''"
  proof (cases "x < 0")
    case True
    with b have "- (10 ^ 21) < x" by simp
    with True show ?thesis
      by (simp add: percentString_def toFixed_2_neg [of x ts] abs_if)
  next
    case False
    with b have "0 \<le> x" "x < 10 ^ 21" by simp_all
    with False show ?thesis
      by (simp add: percentString_def toFixed_2_nonneg [of x ts] abs_if)
  qed
next
  show "percentString ts (Finite double_99_995) = ''100.00%''"
    by (simp add: percentString_def toFixed_def double_99_995_def print_simps
        floor_rat_numeral)
next
  show "percentString ts (Finite (99995 / 1000)) = ''100.00%''"
    by (simp add: percentString_def toFixed_def print_simps floor_rat_numeral)
next
  show "percentString ts (Finite 0) = ''0.00%''"
    by (simp add: percentString_def toFixed_def print_simps floor_rat_numeral)
qed

theorem percentString_two_decimals_witness:
  "percentString sampleNumberToString (Finite (9995 / 100)) = ''99.95%''
   \<and> percentString sampleNumberToString (Finite (- 1 / 8)) = ''-0.13%''"
proof -
  have "percentString sampleNumberToString (Finite (9995 / 100)) = ''99.95%''"
    using percentString_two_decimals [of "9995 / 100" sampleNumberToString]
    by (simp add: print_simps floor_rat_numeral)
  moreover have "percentString sampleNumberToString (Finite (- 1 / 8)) = ''-0.13%''"
    using percentString_two_decimals [of "- 1 / 8" sampleNumberToString]
    by (simp add: print_simps floor_rat_numeral)
  ultimately show ?thesis by (rule conjI)
qed

text \<open>
  C8, as stated: the same formatter on the same input gives the same output. It fails for
  the formatters that read the clock: on one timestamp, \<open>isRecent\<close> and \<open>formatTimeAgo\<close>
  answer differently when called 4.999 and 5 seconds after it.
\<close>

theorem formatter_clock_counterexample:
  "isRecent 1700000004999 1700000000000 \<noteq> isRecent 1700000005000 1700000000000
   \<and> formatTimeAgo epochLocale 1700000004999 1700000000000
       \<noteq> formatTimeAgo epochLocale 1700000005000 1700000000000"
  by (simp add: isRecent_def formatTimeAgo_def print_simps)

text \<open>
  C8, amended. \<open>formatTimeAgo\<close>, \<open>formatDate\<close> and \<open>isRecent\<close> read the clock besides their
  argument, and nothing else: two calls on the same input agree whenever the whole seconds
  elapsed since the timestamp are the same at both calls (with the same locale).
  \<open>percentString\<close> and \<open>formatLatency\<close> read their argument only.
\<close>

theorem formatters_same_elapsed:
  assumes "elapsed1 div 1000 = elapsed2 div 1000"
  shows "formatTimeAgo toLocale (date + elapsed1) date =
      formatTimeAgo toLocale (date + elapsed2) date
    \<and> isRecent (date + elapsed1) date = isRecent (date + elapsed2) date
    \<and> (parseDate dateString = Some date \<longrightarrow>
         formatDate toLocale parseDate (date + elapsed1) dateString =
         formatDate toLocale parseDate (date + elapsed2) dateString)"
proof -
  have "elapsed1 < 5000 \<longleftrightarrow> elapsed1 div 1000 < 5" by linarith
  moreover have "elapsed2 < 5000 \<longleftrightarrow> elapsed2 div 1000 < 5" by linarith
  ultimately have "isRecent (date + elapsed1) date = isRecent (date + elapsed2) date"
    using assms by (simp add: isRecent_def)
  with assms show ?thesis
    by (simp add: formatTimeAgo_def formatDate_def)
qed

theorem formatters_same_elapsed_witness:
  "formatTimeAgo epochLocale (1714557600000 + 61000) 1714557600000 =
     formatTimeAgo epochLocale (1714557600000 + 61999) 1714557600000
   \<and> isRecent (1714557600000 + 61000) 1714557600000 =
       isRecent (1714557600000 + 61999) 1714557600000
   \<and> formatDate epochLocale sampleParseDate (1714557600000 + 61000) ''2024-05-01T10:00:00Z'' =
       formatDate epochLocale sampleParseDate (1714557600000 + 61999) ''2024-05-01T10:00:00Z''"
proof -
  have "(61000::int) div 1000 = 61999 div 1000" by simp
  moreover have "sampleParseDate ''2024-05-01T10:00:00Z'' = Some 1714557600000"
    by (simp add: sampleParseDate_def)
  ultimately show ?thesis
    using formatters_same_elapsed [of 61000 61999 epochLocale 1714557600000 sampleParseDate
        "''2024-05-01T10:00:00Z''"]
    by blast
qed

end
